theory Spec2Isabelle
  imports Complex_Main "HOL-Library.Multiset" "HOL-Library.Sublist" "HOL-Library.AList"
begin

section \<open>The tool server (tool-server/server.py)\<close>

text \<open>
  The server is a Flask application with five read-only routes. Each handler is embedded
  as a function of what it reads from outside (the query arguments, the HTTP library, the
  clock, the host's readings, the sub-processes) and returns the response it sends. The
  outbound HTTP requests a handler issues are returned beside the response, so that
  "no outbound call" is the empty list.
\<close>

subsection \<open>JSON values and Python exceptions\<close>

text \<open>
  A value as \<open>response.json()\<close> returns it and as \<open>jsonify\<close> sends it. A Python
  \<open>dict\<close> is an association list in insertion order, read by \<open>map_of\<close>. Finite
  floats are the rationals they denote (no handler computes with NaN or an infinity).
  A Python \<open>str\<close> is a \<open>string\<close> of code points below 256.
\<close>

datatype json =
    JNull
  | JBool bool
  | JInt int
  | JFloat rat
  | JStr string
  | JList "json list"
  | JObj "(string \<times> json) list"

text \<open>
  The exceptions the handlers can meet. \<open>KeyError\<close> carries the missing key; the
  others carry their message. \<open>LibraryError\<close> is an exception raised inside
  \<open>requests\<close> or \<open>psutil\<close> (connection failure, timeout, a body that is not
  JSON, ...) and carries what \<open>str(e)\<close> returns for it.
\<close>

datatype py_exn =
    KeyError string
  | TypeError string
  | AttributeError string
  | LibraryError string

definition quoted :: "string \<Rightarrow> string" where
  "quoted s = CHR 0x27 # s @ [CHR 0x27]"

text \<open>\<open>str(e)\<close>: a \<open>KeyError\<close> prints the \<open>repr\<close> of its key.\<close>

fun py_str :: "py_exn \<Rightarrow> string" where
  "py_str (KeyError k) = quoted k"
| "py_str (TypeError m) = m"
| "py_str (AttributeError m) = m"
| "py_str (LibraryError m) = m"

fun type_name :: "json \<Rightarrow> string" where
  "type_name JNull = ''NoneType''"
| "type_name (JBool b) = ''bool''"
| "type_name (JInt i) = ''int''"
| "type_name (JFloat x) = ''float''"
| "type_name (JStr s) = ''str''"
| "type_name (JList xs) = ''list''"
| "type_name (JObj kvs) = ''dict''"

text \<open>Sequencing of steps that may raise: the first exception ends the block.\<close>

fun and_then :: "py_exn + 'a \<Rightarrow> ('a \<Rightarrow> py_exn + 'b) \<Rightarrow> py_exn + 'b" where
  "and_then (Inl e) f = Inl e"
| "and_then (Inr x) f = f x"

text \<open>\<open>data[k]\<close> with a string key \<open>k\<close>.\<close>

fun subscript :: "json \<Rightarrow> string \<Rightarrow> py_exn + json" where
  "subscript (JObj kvs) k =
     (case map_of kvs k of None \<Rightarrow> Inl (KeyError k) | Some v \<Rightarrow> Inr v)"
| "subscript (JList xs) k =
     Inl (TypeError ''list indices must be integers or slices, not str'')"
| "subscript (JStr s) k =
     Inl (TypeError (''string indices must be integers, not '' @ quoted ''str''))"
| "subscript v k =
     Inl (TypeError (quoted (type_name v) @ '' object is not subscriptable''))"

text \<open>\<open>r.get(k, d)\<close>; \<open>r.get(k)\<close> is \<open>dict_get r k JNull\<close>.\<close>

fun dict_get :: "json \<Rightarrow> string \<Rightarrow> json \<Rightarrow> py_exn + json" where
  "dict_get (JObj kvs) k d = Inr (case map_of kvs k of None \<Rightarrow> d | Some v \<Rightarrow> v)"
| "dict_get v k d =
     Inl (AttributeError (quoted (type_name v) @ '' object has no attribute '' @ quoted ''get''))"

text \<open>
  \<open>for r in v[:5]\<close>: the values the loop visits. A string is sliced and iterated by
  character; a dict cannot be sliced (a \<open>TypeError\<close> up to CPython 3.11, a
  \<open>KeyError\<close> from 3.12 on, with a non-empty description either way).
\<close>

fun first_five :: "json \<Rightarrow> py_exn + json list" where
  "first_five (JList xs) = Inr (take 5 xs)"
| "first_five (JStr s) = Inr (map (\<lambda>c. JStr [c]) (take 5 s))"
| "first_five (JObj kvs) = Inl (TypeError (''unhashable type: '' @ quoted ''slice''))"
| "first_five v = Inl (TypeError (quoted (type_name v) @ '' object is not subscriptable''))"

subsection \<open>Requests and responses\<close>

text \<open>An outbound \<open>requests.get(url, params=..., timeout=...)\<close>.\<close>

record http_call =
  call_url :: string
  call_params :: "(string \<times> string) list"
  call_timeout :: nat

text \<open>What came back: \<open>response.json()\<close> either parses the body or raises.\<close>

datatype http_response = HttpResponse (response_json: "py_exn + json")

text \<open>
  The HTTP library as the handlers see it: \<open>requests.get\<close> returns a response or
  raises (a connection failure, or the timeout of the call).
\<close>

type_synonym requests = "http_call \<Rightarrow> py_exn + http_response"

text \<open>\<open>request.args\<close>: \<open>args k\<close> is \<open>request.args.get(k)\<close>.\<close>

type_synonym query_args = "string \<rightharpoonup> string"

record response =
  status :: nat
  body :: json

definition jsonify :: "json \<Rightarrow> nat \<Rightarrow> response" where
  "jsonify v code = \<lparr>status = code, body = v\<rparr>"

definition error_body :: "string \<Rightarrow> json" where
  "error_body msg = JObj [(''error'', JStr msg)]"

text \<open>\<open>not v\<close> for an optional string: \<open>None\<close> and \<open>''\<close> are false.\<close>

fun falsy :: "string option \<Rightarrow> bool" where
  "falsy None = True"
| "falsy (Some s) = (s = [])"

subsection \<open>/weather\<close>

definition weather_url :: "string \<Rightarrow> string \<Rightarrow> string" where
  "weather_url lat lon =
     ''https://api.open-meteo.com/v1/forecast?latitude='' @ lat @ ''&longitude='' @ lon
       @ ''&current=temperature_2m,weathercode,windspeed_10m&timezone=auto''"

definition weather_call :: "string \<Rightarrow> string \<Rightarrow> http_call" where
  "weather_call lat lon =
     \<lparr>call_url = weather_url lat lon, call_params = [], call_timeout = 5\<rparr>"

text \<open>The dict literal of the success response, evaluated entry by entry.\<close>

definition weather_report :: "json \<Rightarrow> py_exn + json" where
  "weather_report data =
     and_then (and_then (subscript data ''current'') (\<lambda>c. subscript c ''temperature_2m''))
       (\<lambda>temperature.
     and_then (and_then (subscript data ''current_units'') (\<lambda>c. subscript c ''temperature_2m''))
       (\<lambda>temperature_unit.
     and_then (and_then (subscript data ''current'') (\<lambda>c. subscript c ''weathercode''))
       (\<lambda>weathercode.
     and_then (and_then (subscript data ''current'') (\<lambda>c. subscript c ''windspeed_10m''))
       (\<lambda>windspeed.
     and_then (and_then (subscript data ''current_units'') (\<lambda>c. subscript c ''windspeed_10m''))
       (\<lambda>windspeed_unit.
     and_then (subscript data ''timezone'')
       (\<lambda>timezone.
     Inr (JObj [(''temperature'', temperature),
                (''temperature_unit'', temperature_unit),
                (''weathercode'', weathercode),
                (''windspeed'', windspeed),
                (''windspeed_unit'', windspeed_unit),
                (''timezone'', timezone)])))))))"

text \<open>The \<open>try\<close> block of \<open>get_weather\<close>: the request, the parse, the reshaping.\<close>

definition weather_try :: "requests \<Rightarrow> http_call \<Rightarrow> py_exn + json" where
  "weather_try requests_get call =
     and_then (requests_get call) (\<lambda>r. and_then (response_json r) weather_report)"

definition get_weather :: "requests \<Rightarrow> query_args \<Rightarrow> response \<times> http_call list" where
  "get_weather requests_get args =
     (let lat = args ''lat''; lon = args ''lon'' in
      if falsy lat \<or> falsy lon
      then (jsonify (error_body ''lat and lon parameters required'') 400, [])
      else
        let call = weather_call (the lat) (the lon) in
        (case weather_try requests_get call of
           Inr report \<Rightarrow> jsonify report 200
         | Inl e \<Rightarrow> jsonify (error_body (py_str e)) 500,
         [call]))"

subsection \<open>/search\<close>

definition searxng_url :: string where
  "searxng_url = ''http://192.168.61.112:8888/search''"

definition search_call :: "string \<Rightarrow> http_call" where
  "search_call query =
     \<lparr>call_url = searxng_url,
      call_params = [(''q'', query), (''format'', ''json''), (''categories'', ''general'')],
      call_timeout = 10\<rparr>"

definition format_result :: "json \<Rightarrow> py_exn + json" where
  "format_result r =
     and_then (dict_get r ''title'' JNull) (\<lambda>title.
     and_then (dict_get r ''url'' JNull) (\<lambda>url.
     and_then (dict_get r ''content'' (JStr [])) (\<lambda>snippet.
     Inr (JObj [(''title'', title), (''url'', url), (''snippet'', snippet)]))))"

text \<open>The loop over the first five results, appending to \<open>results\<close>.\<close>

fun format_results :: "json list \<Rightarrow> json list \<Rightarrow> py_exn + json list" where
  "format_results [] results = Inr results"
| "format_results (r # rs) results =
     and_then (format_result r) (\<lambda>x. format_results rs (results @ [x]))"

definition search_results :: "json \<Rightarrow> py_exn + json" where
  "search_results data =
     and_then (dict_get data ''results'' (JList [])) (\<lambda>v.
     and_then (first_five v) (\<lambda>rs.
     and_then (format_results rs []) (\<lambda>results.
     Inr (JObj [(''results'', JList results)]))))"

definition search_try :: "requests \<Rightarrow> http_call \<Rightarrow> py_exn + json" where
  "search_try requests_get call =
     and_then (requests_get call) (\<lambda>r. and_then (response_json r) search_results)"

definition web_search :: "requests \<Rightarrow> query_args \<Rightarrow> response \<times> http_call list" where
  "web_search requests_get args =
     (let query = args ''q'' in
      if falsy query
      then (jsonify (error_body ''q parameter required'') 400, [])
      else
        let call = search_call (the query) in
        (case search_try requests_get call of
           Inr results \<Rightarrow> jsonify results 200
         | Inl e \<Rightarrow> jsonify (error_body (py_str e)) 500,
         [call]))"

subsection \<open>Reading a response\<close>

text \<open>The value of a field of a JSON object, if it has it.\<close>

fun field :: "json \<Rightarrow> string \<Rightarrow> json option" where
  "field (JObj kvs) k = map_of kvs k"
| "field v k = None"

subsection \<open>The reshaped search result, and stub upstreams\<close>

fun is_object :: "json \<Rightarrow> bool" where
  "is_object (JObj kvs) = True"
| "is_object v = False"

text \<open>
  What an upstream result becomes in the response: \<open>title\<close> and \<open>url\<close> as they
  are (null when absent), \<open>snippet\<close> the \<open>content\<close> field, the empty string when
  that field is absent.
\<close>

definition search_entry :: "json \<Rightarrow> json" where
  "search_entry r =
     JObj [(''title'', case field r ''title'' of None \<Rightarrow> JNull | Some v \<Rightarrow> v),
           (''url'', case field r ''url'' of None \<Rightarrow> JNull | Some v \<Rightarrow> v),
           (''snippet'', case field r ''content'' of None \<Rightarrow> JStr [] | Some v \<Rightarrow> v)]"

text \<open>
  The entry as the specification words it: the snippet is the empty string when the
  \<open>content\<close> field is absent or null.
\<close>

definition claimed_search_entry :: "json \<Rightarrow> json" where
  "claimed_search_entry r =
     JObj [(''title'', case field r ''title'' of None \<Rightarrow> JNull | Some v \<Rightarrow> v),
           (''url'', case field r ''url'' of None \<Rightarrow> JNull | Some v \<Rightarrow> v),
           (''snippet'', case field r ''content'' of
                           None \<Rightarrow> JStr [] | Some JNull \<Rightarrow> JStr [] | Some v \<Rightarrow> v)]"

text \<open>The weather stub of the specification's test: 21.5 degrees Celsius in Berlin.\<close>

definition berlin :: json where
  "berlin = JObj [(''current'', JObj [(''temperature_2m'', JFloat 21.5),
                                     (''weathercode'', JInt 3),
                                     (''windspeed_10m'', JFloat 12.0)]),
                  (''current_units'', JObj [(''temperature_2m'', JStr [CHR 0xB0, CHR ''C'']),
                                           (''windspeed_10m'', JStr ''km/h'')]),
                  (''timezone'', JStr ''Europe/Berlin'')]"

text \<open>A search stub with eight results, some without \<open>content\<close>; the seventh is no object.\<close>

definition eight_results :: json where
  "eight_results = JObj [(''results'', JList
     [JObj [(''title'', JStr ''a''), (''url'', JStr ''http://a''), (''content'', JStr ''first'')],
      JObj [(''title'', JStr ''b''), (''url'', JStr ''http://b'')],
      JObj [(''title'', JStr ''c''), (''url'', JStr ''http://c''), (''content'', JNull)],
      JObj [(''url'', JStr ''http://d'')],
      JObj [],
      JObj [(''title'', JStr ''f'')],
      JInt 7,
      JObj [(''title'', JStr ''h'')]])]"

text \<open>A search stub whose only result has a null \<open>content\<close>.\<close>

definition null_content :: json where
  "null_content = JObj [(''results'', JList
     [JObj [(''title'', JStr ''a''), (''url'', JStr ''http://a''), (''content'', JNull)]])]"

subsection \<open>Python strings\<close>

text \<open>The characters \<open>str.isspace\<close> accepts, among the code points below 256.\<close>

definition is_space :: "char \<Rightarrow> bool" where
  "is_space c \<longleftrightarrow>
     c \<in> set [CHR 0x09, CHR 0x0A, CHR 0x0B, CHR 0x0C, CHR 0x0D, CHR 0x1C, CHR 0x1D,
              CHR 0x1E, CHR 0x1F, CHR 0x20, CHR 0x85, CHR 0xA0]"

text \<open>\<open>s.strip()\<close>.\<close>

definition py_strip :: "string \<Rightarrow> string" where
  "py_strip s = rev (dropWhile is_space (rev (dropWhile is_space s)))"

text \<open>\<open>s.split('\n')\<close>: the pieces between the newlines, at least one.\<close>

fun split_nl :: "string \<Rightarrow> string list" where
  "split_nl [] = [[]]"
| "split_nl (c # cs) =
     (if c = CHR 0x0A then [] # split_nl cs
      else (case split_nl cs of [] \<Rightarrow> [[c]] | l # ls \<Rightarrow> (c # l) # ls))"

text \<open>\<open>s.count(sub)\<close>: the occurrences of \<open>sub\<close> in \<open>s\<close>, left to right, not overlapping.\<close>

function count_sub :: "string \<Rightarrow> string \<Rightarrow> nat" where
  "count_sub [] sub = (if sub = [] then 1 else 0)"
| "count_sub (c # cs) sub =
     (if sub = [] then Suc (count_sub cs sub)
      else if prefix sub (c # cs) then Suc (count_sub (drop (length sub - 1) cs) sub)
      else count_sub cs sub)"
  by pat_completeness auto
termination
  by (relation "measure (\<lambda>(s, sub). length s)") auto

text \<open>The decimal digits of a number, and \<open>%0wd\<close>.\<close>

definition digit_char :: "nat \<Rightarrow> char" where
  "digit_char d = ''0123456789'' ! d"

fun digits :: "nat \<Rightarrow> string" where
  "digits n = (if n < 10 then [digit_char n] else digits (n div 10) @ [digit_char (n mod 10)])"

declare digits.simps [simp del]

definition zfill :: "nat \<Rightarrow> string \<Rightarrow> string" where
  "zfill w s = replicate (w - length s) CHR ''0'' @ s"

subsection \<open>/time\<close>

record datetime =
  year :: nat
  month :: nat
  day :: nat
  hour :: nat
  minute :: nat
  second :: nat
  microsecond :: nat

text \<open>
  The clock: \<open>clock n\<close> is what the \<open>n\<close>-th call of \<open>datetime.now()\<close> returns.
  A handler is given the number of readings taken so far and returns the new number.
\<close>

type_synonym clock = "nat \<Rightarrow> datetime"

definition datetime_now :: "clock \<Rightarrow> nat \<Rightarrow> datetime \<times> nat" where
  "datetime_now clock n = (clock n, Suc n)"

text \<open>\<open>now.strftime('%Y-%m-%d')\<close>; the C library prints \<open>%Y\<close> without padding.\<close>

definition strftime_date :: "datetime \<Rightarrow> string" where
  "strftime_date d =
     digits (year d) @ ''-'' @ zfill 2 (digits (month d)) @ ''-'' @ zfill 2 (digits (day d))"

text \<open>\<open>now.strftime('%H:%M:%S')\<close>.\<close>

definition strftime_time :: "datetime \<Rightarrow> string" where
  "strftime_time d =
     zfill 2 (digits (hour d)) @ '':'' @ zfill 2 (digits (minute d)) @ '':''
       @ zfill 2 (digits (second d))"

text \<open>The fraction \<open>isoformat\<close> appends: nothing for a whole second.\<close>

definition iso_fraction :: "nat \<Rightarrow> string" where
  "iso_fraction us = (if us = 0 then [] else ''.'' @ zfill 6 (digits us))"

text \<open>\<open>now.isoformat()\<close> of a naive datetime.\<close>

definition isoformat :: "datetime \<Rightarrow> string" where
  "isoformat d =
     zfill 4 (digits (year d)) @ ''-'' @ zfill 2 (digits (month d)) @ ''-''
       @ zfill 2 (digits (day d)) @ ''T''
       @ zfill 2 (digits (hour d)) @ '':'' @ zfill 2 (digits (minute d)) @ '':''
       @ zfill 2 (digits (second d)) @ iso_fraction (microsecond d)"

text \<open>
  \<open>get_time\<close>. \<open>tzname now\<close> is \<open>now.astimezone().tzname()\<close>: the name of the
  host's time zone at \<open>now\<close>, read from the host's zone rules, not from the clock.
\<close>

definition get_time :: "clock \<Rightarrow> (datetime \<Rightarrow> string) \<Rightarrow> nat \<Rightarrow> response \<times> nat" where
  "get_time clock tzname n =
     (let (now, n') = datetime_now clock n in
      (jsonify (JObj [(''datetime'', JStr (isoformat now)),
                      (''date'', JStr (strftime_date now)),
                      (''time'', JStr (strftime_time now)),
                      (''timezone'', JStr (tzname now))]) 200,
       n'))"

text \<open>A reading half a second into 2024-05-06 07:08:09.\<close>

definition half_past :: datetime where
  "half_past = \<lparr>year = 2024, month = 5, day = 6, hour = 7, minute = 8, second = 9,
                microsecond = 500000\<rparr>"

text \<open>
  Reading an instant back from its ISO form, to compare what two strings denote: the
  value of a digit and of a string of digits, and the fields at their fixed places
  (\<open>YYYY-MM-DDTHH:MM:SS\<close> and, from place 20 on, the microseconds if any), as
  \<open>datetime.fromisoformat\<close> reads what \<open>isoformat\<close> wrote.
\<close>

definition digit_value :: "char \<Rightarrow> nat" where
  "digit_value c = length (takeWhile (\<lambda>x. x \<noteq> c) ''0123456789'')"

definition parse_nat :: "string \<Rightarrow> nat" where
  "parse_nat s = foldl (\<lambda>a c. 10 * a + digit_value c) 0 s"

definition read_iso :: "string \<Rightarrow> datetime" where
  "read_iso s =
     \<lparr>year = parse_nat (take 4 s),
      month = parse_nat (take 2 (drop 5 s)),
      day = parse_nat (take 2 (drop 8 s)),
      hour = parse_nat (take 2 (drop 11 s)),
      minute = parse_nat (take 2 (drop 14 s)),
      second = parse_nat (take 2 (drop 17 s)),
      microsecond = parse_nat (drop 20 s)\<rparr>"

text \<open>The ranges of the fields of a Python \<open>datetime\<close>.\<close>

definition valid_datetime :: "datetime \<Rightarrow> bool" where
  "valid_datetime d \<longleftrightarrow>
     1 \<le> year d \<and> year d \<le> 9999 \<and> 1 \<le> month d \<and> month d \<le> 12 \<and> 1 \<le> day d \<and> day d \<le> 31
     \<and> hour d < 24 \<and> minute d < 60 \<and> second d < 60 \<and> microsecond d < 1000000"

subsection \<open>/system: the host\<close>

text \<open>
  What the first block of \<open>system_info\<close> reads from \<open>platform\<close> and
  \<open>psutil\<close>, one field for each call. Sizes are in bytes.
\<close>

record readings =
  platform_node :: string
  platform_release :: string
  platform_system :: string
  platform_version :: string
  platform_machine :: string
  cpu_percent :: rat
  cpu_count :: "nat option"
  memory_total :: nat
  memory_used :: nat
  memory_percent :: rat
  disk_total :: nat
  disk_used :: nat
  disk_percent :: rat

text \<open>A process as \<open>psutil.process_iter(['name', 'cpu_percent'])\<close> yields it: either
  entry of \<open>info\<close> is \<open>None\<close> when the process did not let it be read.\<close>

record process =
  proc_name :: "string option"
  proc_cpu_percent :: "rat option"

text \<open>
  A call of \<open>subprocess.check_output\<close>. The handler passes no \<open>timeout\<close> in any
  of its calls; the field records that.
\<close>

record subprocess_call =
  argv :: "string list"
  stderr_devnull :: bool
  wait_timeout :: "nat option"

text \<open>
  What \<open>check_output(...).decode()\<close> does: it returns the decoded output, it raises
  (no such program, a non-zero exit status, bytes that are not UTF-8; with a timeout,
  \<open>TimeoutExpired\<close>), or, without a timeout, it waits for a child that never ends.
\<close>

datatype 'a outcome = Returns 'a | Raises py_exn | Hangs

record host =
  host_readings :: "py_exn + readings"
  check_output :: "subprocess_call \<Rightarrow> string outcome"
  process_iter :: "py_exn + process list"

text \<open>
  \<open>round(n / 1024**3, 2)\<close> for a number of bytes \<open>n\<close>: the quotient to the
  nearest hundredth, a tie to the even one. The quotient is taken exactly; the rounding
  error of the float division is left out.
\<close>

definition round_half_even :: "nat \<Rightarrow> nat \<Rightarrow> nat" where
  "round_half_even a b =
     (let q = a div b; r = a mod b in
      if 2 * r < b then q else if b < 2 * r then q + 1 else if even q then q else q + 1)"

definition gigabytes :: "nat \<Rightarrow> rat" where
  "gigabytes n = of_nat (round_half_even (n * 100) (1024 ^ 3)) / 100"

fun json_of_count :: "nat option \<Rightarrow> json" where
  "json_of_count None = JNull"
| "json_of_count (Some n) = JInt (int n)"

definition base_info :: "readings \<Rightarrow> (string \<times> json) list" where
  "base_info h =
     [(''hostname'', JStr (platform_node h)),
      (''kernel'', JStr (platform_release h)),
      (''os'', JStr (platform_system h @ '' '' @ platform_version h)),
      (''architecture'', JStr (platform_machine h)),
      (''cpu_percent'', JFloat (cpu_percent h)),
      (''cpu_count'', json_of_count (cpu_count h)),
      (''memory_total_gb'', JFloat (gigabytes (memory_total h))),
      (''memory_used_gb'', JFloat (gigabytes (memory_used h))),
      (''memory_percent'', JFloat (memory_percent h)),
      (''disk_total_gb'', JFloat (gigabytes (disk_total h))),
      (''disk_used_gb'', JFloat (gigabytes (disk_used h))),
      (''disk_percent'', JFloat (disk_percent h))]"

subsection \<open>/system: the probes\<close>

text \<open>
  Each probe is a \<open>try\<close> with a bare \<open>except\<close>: whatever the call raises, the
  fallback is stored. A call that never returns leaves the probe, and the handler,
  without a result: \<open>None\<close>. A probe returns the entries it stores in \<open>info\<close>.
\<close>

definition gnome_call :: subprocess_call where
  "gnome_call = \<lparr>argv = [''gnome-shell'', ''--version''], stderr_devnull = True,
                  wait_timeout = None\<rparr>"

definition flatpak_call :: subprocess_call where
  "flatpak_call = \<lparr>argv = [''flatpak'', ''list'', ''--app'', ''--columns=application''],
                    stderr_devnull = True, wait_timeout = None\<rparr>"

definition dpkg_call :: subprocess_call where
  "dpkg_call = \<lparr>argv = [''dpkg'', ''-l''], stderr_devnull = True, wait_timeout = None\<rparr>"

definition gnome_probe :: "string outcome \<Rightarrow> (string \<times> json) list option" where
  "gnome_probe out =
     (case out of
        Returns s \<Rightarrow> Some [(''gnome_version'', JStr (py_strip s))]
      | Raises e \<Rightarrow> Some [(''gnome_version'', JStr ''unknown'')]
      | Hangs \<Rightarrow> None)"

definition flatpak_probe :: "string outcome \<Rightarrow> (string \<times> json) list option" where
  "flatpak_probe out =
     (case out of
        Returns s \<Rightarrow>
          (let flatpaks = split_nl (py_strip s) in
           Some [(''flatpak_count'', JInt (int (length (filter (\<lambda>f. f \<noteq> []) flatpaks)))),
                 (''flatpak_apps'', JList (map JStr (take 10 (filter (\<lambda>f. f \<noteq> []) flatpaks))))])
      | Raises e \<Rightarrow> Some [(''flatpak_count'', JInt 0), (''flatpak_apps'', JList [])]
      | Hangs \<Rightarrow> None)"

definition apt_probe :: "string outcome \<Rightarrow> (string \<times> json) list option" where
  "apt_probe out =
     (case out of
        Returns s \<Rightarrow> Some [(''apt_packages_count'', JInt (int (count_sub s (CHR 0x0A # ''ii ''))))]
      | Raises e \<Rightarrow> Some [(''apt_packages_count'', JInt 0)]
      | Hangs \<Rightarrow> None)"

subsection \<open>/system: the top processes\<close>

text \<open>\<open>p.info['cpu_percent'] or 0\<close>: the sort key.\<close>

definition cpu_key :: "process \<Rightarrow> rat" where
  "cpu_key p = (case proc_cpu_percent p of None \<Rightarrow> 0 | Some c \<Rightarrow> if c = 0 then 0 else c)"

text \<open>
  \<open>sorted(xs, key=key, reverse=True)\<close>: CPython reverses the list, sorts it stably
  and reverses the result, so that elements with equal keys keep their order.
\<close>

definition sorted_reverse :: "('a \<Rightarrow> 'k::linorder) \<Rightarrow> 'a list \<Rightarrow> 'a list" where
  "sorted_reverse key xs = rev (sort_key key (rev xs))"

fun json_of_name :: "string option \<Rightarrow> json" where
  "json_of_name None = JNull"
| "json_of_name (Some s) = JStr s"

fun json_of_float :: "rat option \<Rightarrow> json" where
  "json_of_float None = JNull"
| "json_of_float (Some x) = JFloat x"

definition process_entry :: "process \<Rightarrow> json" where
  "process_entry p =
     JObj [(''name'', json_of_name (proc_name p)),
           (''cpu_percent'', json_of_float (proc_cpu_percent p))]"

definition top_processes :: "process list \<Rightarrow> json list" where
  "top_processes procs = map process_entry (take 5 (sorted_reverse cpu_key procs))"

subsection \<open>/system: the handler\<close>

text \<open>\<open>info[k] = v\<close> for each entry of a probe, in order.\<close>

definition store :: "(string \<times> json) list \<Rightarrow> (string \<times> json) list \<Rightarrow> (string \<times> json) list" where
  "store entries info = foldl (\<lambda>d (k, v). AList.update k v d) info entries"

text \<open>
  \<open>system_info\<close>: the response, or \<open>None\<close> when the handler waits forever for a
  sub-process. An exception outside the probes ends in the outer \<open>except\<close>.
\<close>

definition system_info :: "host \<Rightarrow> response option" where
  "system_info env =
     (case host_readings env of
        Inl e \<Rightarrow> Some (jsonify (error_body (py_str e)) 500)
      | Inr h \<Rightarrow>
          Option.bind (gnome_probe (check_output env gnome_call)) (\<lambda>gnome.
          Option.bind (flatpak_probe (check_output env flatpak_call)) (\<lambda>flatpak.
          Option.bind (apt_probe (check_output env dpkg_call)) (\<lambda>apt.
            (case process_iter env of
               Inl e \<Rightarrow> Some (jsonify (error_body (py_str e)) 500)
             | Inr procs \<Rightarrow>
                 Some (jsonify
                   (JObj (store [(''top_processes'', JList (top_processes procs))]
                     (store apt (store flatpak (store gnome (base_info h)))))) 200))))))"

subsection \<open>Lines of text\<close>

text \<open>
  The words of the properties below: the pieces joined again by newlines, against
  which \<open>split_nl\<close> is checked, and the entries that are not the empty string,
  which are what \<open>if f\<close> keeps.
\<close>

fun join_nl :: "string list \<Rightarrow> string" where
  "join_nl [] = []"
| "join_nl [l] = l"
| "join_nl (l # ls) = l @ CHR 0x0A # join_nl ls"


subsection \<open>Hosts for the examples\<close>

text \<open>The newline, and three hosts: one where no probe can run, a desktop, and one
  whose \<open>gnome-shell\<close> never exits.\<close>

definition nl :: string where
  "nl = [CHR 0x0A]"

definition laptop :: readings where
  "laptop = \<lparr>platform_node = ''penguin'', platform_release = ''6.8.0'',
     platform_system = ''Linux'', platform_version = ''#1 SMP'', platform_machine = ''x86_64'',
     cpu_percent = 12.5, cpu_count = Some 8,
     memory_total = 17179869184, memory_used = 134217728, memory_percent = 0.8,
     disk_total = 512000000000, disk_used = 256000000000, disk_percent = 50\<rparr>"

definition some_processes :: "process list" where
  "some_processes =
     [\<lparr>proc_name = Some ''init'', proc_cpu_percent = Some 0\<rparr>,
      \<lparr>proc_name = Some ''kworker'', proc_cpu_percent = None\<rparr>,
      \<lparr>proc_name = Some ''firefox'', proc_cpu_percent = Some 35.5\<rparr>,
      \<lparr>proc_name = None, proc_cpu_percent = Some 2\<rparr>,
      \<lparr>proc_name = Some ''python'', proc_cpu_percent = Some 35.5\<rparr>,
      \<lparr>proc_name = Some ''gnome-shell'', proc_cpu_percent = Some 7\<rparr>,
      \<lparr>proc_name = Some ''sshd'', proc_cpu_percent = Some 0\<rparr>]"

definition all_probes_fail :: host where
  "all_probes_fail = \<lparr>host_readings = Inr laptop,
     check_output = (\<lambda>c. Raises (LibraryError ''[Errno 2] No such file or directory'')),
     process_iter = Inr some_processes\<rparr>"

definition desktop :: host where
  "desktop = \<lparr>host_readings = Inr laptop,
     check_output = (\<lambda>c.
        if c = gnome_call then Returns (''GNOME Shell 46.0'' @ nl)
        else if c = flatpak_call then Returns (''org.gimp.GIMP'' @ nl @ nl @ ''org.videolan.VLC'' @ nl)
        else Returns (''Desired=Unknown'' @ nl @ ''ii  bash 5.2'' @ nl @ ''rc  old 1.0'' @ nl @ ''ii  zsh 5.9'' @ nl)),
     process_iter = Inr some_processes\<rparr>"

definition gnome_hangs :: host where
  "gnome_hangs = \<lparr>host_readings = Inr laptop,
     check_output = (\<lambda>c. if c = gnome_call then Hangs
        else Raises (LibraryError ''[Errno 2] No such file or directory'')),
     process_iter = Inr some_processes\<rparr>"







section \<open>Properties\<close>

subsection \<open>Validation of the query parameters\<close>

text \<open>
  C1. A request to /weather without \<open>lat\<close> or without \<open>lon\<close>, and a request to
  /search without \<open>q\<close>, is answered with status 400 and a JSON object whose only
  field is \<open>error\<close>; the list of outbound calls is empty, whatever the upstream
  would have answered.
\<close>

theorem missing_parameter_is_400:
  "(args ''lat'' = None \<or> args ''lon'' = None \<longrightarrow>
      get_weather requests_get args =
        (\<lparr>status = 400, body = JObj [(''error'', JStr ''lat and lon parameters required'')]\<rparr>, []))
   \<and> (args ''q'' = None \<longrightarrow>
      web_search requests_get args =
        (\<lparr>status = 400, body = JObj [(''error'', JStr ''q parameter required'')]\<rparr>, []))"
  by (auto simp: get_weather_def web_search_def jsonify_def error_body_def)

theorem missing_parameter_is_400_witness:
  "get_weather (\<lambda>c. Inr (HttpResponse (Inr JNull))) [''lon'' \<mapsto> ''13.4''] =
     (\<lparr>status = 400, body = JObj [(''error'', JStr ''lat and lon parameters required'')]\<rparr>, [])
   \<and> get_weather (\<lambda>c. Inr (HttpResponse (Inr JNull))) [''lat'' \<mapsto> ''52.5''] =
     (\<lparr>status = 400, body = JObj [(''error'', JStr ''lat and lon parameters required'')]\<rparr>, [])
   \<and> web_search (\<lambda>c. Inr (HttpResponse (Inr JNull))) Map.empty =
     (\<lparr>status = 400, body = JObj [(''error'', JStr ''q parameter required'')]\<rparr>, [])"
  using missing_parameter_is_400 [of "[''lon'' \<mapsto> ''13.4'']" "\<lambda>c. Inr (HttpResponse (Inr JNull))"]
        missing_parameter_is_400 [of "[''lat'' \<mapsto> ''52.5'']" "\<lambda>c. Inr (HttpResponse (Inr JNull))"]
        missing_parameter_is_400 [of Map.empty "\<lambda>c. Inr (HttpResponse (Inr JNull))"]
  by simp

text \<open>
  C10. The validation tests falsiness, not presence: a \<open>lat\<close>, \<open>lon\<close> or \<open>q\<close>
  that is present but the empty string gets the same 400 response as a missing one, and
  no outbound call is made.
\<close>

theorem empty_parameter_is_400:
  "(args ''lat'' = Some [] \<or> args ''lon'' = Some [] \<longrightarrow>
      get_weather requests_get args =
        (\<lparr>status = 400, body = JObj [(''error'', JStr ''lat and lon parameters required'')]\<rparr>, []))
   \<and> (args ''q'' = Some [] \<longrightarrow>
      web_search requests_get args =
        (\<lparr>status = 400, body = JObj [(''error'', JStr ''q parameter required'')]\<rparr>, []))"
  by (auto simp: get_weather_def web_search_def jsonify_def error_body_def)

theorem empty_parameter_is_400_witness:
  "get_weather (\<lambda>c. Inr (HttpResponse (Inr JNull))) [''lat'' \<mapsto> [], ''lon'' \<mapsto> ''13.4''] =
     (\<lparr>status = 400, body = JObj [(''error'', JStr ''lat and lon parameters required'')]\<rparr>, [])
   \<and> get_weather (\<lambda>c. Inr (HttpResponse (Inr JNull))) [''lat'' \<mapsto> ''52.5'', ''lon'' \<mapsto> []] =
     (\<lparr>status = 400, body = JObj [(''error'', JStr ''lat and lon parameters required'')]\<rparr>, [])
   \<and> web_search (\<lambda>c. Inr (HttpResponse (Inr JNull))) [''q'' \<mapsto> []] =
     (\<lparr>status = 400, body = JObj [(''error'', JStr ''q parameter required'')]\<rparr>, [])"
  using empty_parameter_is_400 [of "[''lat'' \<mapsto> [], ''lon'' \<mapsto> ''13.4'']" "\<lambda>c. Inr (HttpResponse (Inr JNull))"]
        empty_parameter_is_400 [of "[''lat'' \<mapsto> ''52.5'', ''lon'' \<mapsto> []]" "\<lambda>c. Inr (HttpResponse (Inr JNull))"]
        empty_parameter_is_400 [of "[''q'' \<mapsto> []]" "\<lambda>c. Inr (HttpResponse (Inr JNull))"]
  by simp

subsection \<open>Raising steps\<close>


lemma subscript_field: "subscript v k = Inr x \<longleftrightarrow> field v k = Some x"
  by (cases v) (auto split: option.splits)









subsection \<open>/weather: the success response\<close>

lemma weather_report_fields:
  assumes "field data ''current'' = Some cur"
    and "field data ''current_units'' = Some units"
    and "field cur ''temperature_2m'' = Some temperature"
    and "field units ''temperature_2m'' = Some temperature_unit"
    and "field cur ''weathercode'' = Some weathercode"
    and "field cur ''windspeed_10m'' = Some windspeed"
    and "field units ''windspeed_10m'' = Some windspeed_unit"
    and "field data ''timezone'' = Some timezone"
  shows "weather_report data =
     Inr (JObj [(''temperature'', temperature),
                (''temperature_unit'', temperature_unit),
                (''weathercode'', weathercode),
                (''windspeed'', windspeed),
                (''windspeed_unit'', windspeed_unit),
                (''timezone'', timezone)])"
  using assms unfolding weather_report_def subscript_field [symmetric]
  by simp

text \<open>
  C2. A /weather request carries \<open>lat\<close> and \<open>lon\<close>, and the upstream JSON has
  \<open>current.temperature_2m\<close>, \<open>current_units.temperature_2m\<close>,
  \<open>current.weathercode\<close>, \<open>current.windspeed_10m\<close>,
  \<open>current_units.windspeed_10m\<close> and \<open>timezone\<close>. Then the success response is
  exactly the object of those six values under the names \<open>temperature\<close>,
  \<open>temperature_unit\<close>, \<open>weathercode\<close>, \<open>windspeed\<close>, \<open>windspeed_unit\<close>,
  \<open>timezone\<close>: whenever the status is 200 the body is that object, and the status is
  200, after exactly one outbound call, when neither parameter is the empty string
  (which the validation treats as missing).
\<close>

theorem weather_success_reshapes:
  assumes "args ''lat'' = Some lat" and "args ''lon'' = Some lon"
    and "requests_get (weather_call lat lon) = Inr (HttpResponse (Inr data))"
    and "field data ''current'' = Some cur"
    and "field data ''current_units'' = Some units"
    and "field cur ''temperature_2m'' = Some temperature"
    and "field units ''temperature_2m'' = Some temperature_unit"
    and "field cur ''weathercode'' = Some weathercode"
    and "field cur ''windspeed_10m'' = Some windspeed"
    and "field units ''windspeed_10m'' = Some windspeed_unit"
    and "field data ''timezone'' = Some timezone"
  shows "(lat \<noteq> [] \<and> lon \<noteq> [] \<longrightarrow>
           get_weather requests_get args =
             (\<lparr>status = 200,
               body = JObj [(''temperature'', temperature),
                            (''temperature_unit'', temperature_unit),
                            (''weathercode'', weathercode),
                            (''windspeed'', windspeed),
                            (''windspeed_unit'', windspeed_unit),
                            (''timezone'', timezone)]\<rparr>,
              [weather_call lat lon]))
       \<and> (status (fst (get_weather requests_get args)) = 200 \<longrightarrow>
           body (fst (get_weather requests_get args)) =
             JObj [(''temperature'', temperature),
                   (''temperature_unit'', temperature_unit),
                   (''weathercode'', weathercode),
                   (''windspeed'', windspeed),
                   (''windspeed_unit'', windspeed_unit),
                   (''timezone'', timezone)])"
proof -
  have report: "weather_try requests_get (weather_call lat lon) =
     Inr (JObj [(''temperature'', temperature),
                (''temperature_unit'', temperature_unit),
                (''weathercode'', weathercode),
                (''windspeed'', windspeed),
                (''windspeed_unit'', windspeed_unit),
                (''timezone'', timezone)])"
    using weather_report_fields [OF assms(4-11)] assms(3)
    by (simp add: weather_try_def)
  show ?thesis
    using assms(1,2) report
    by (simp add: get_weather_def jsonify_def error_body_def)
qed

text \<open>The specification's test: /weather?lat=52.5&lon=13.4 against the Berlin stub.\<close>

theorem weather_success_reshapes_witness:
  "get_weather (\<lambda>c. Inr (HttpResponse (Inr berlin))) [''lat'' \<mapsto> ''52.5'', ''lon'' \<mapsto> ''13.4''] =
     (\<lparr>status = 200,
       body = JObj [(''temperature'', JFloat 21.5),
                    (''temperature_unit'', JStr [CHR 0xB0, CHR ''C'']),
                    (''weathercode'', JInt 3),
                    (''windspeed'', JFloat 12.0),
                    (''windspeed_unit'', JStr ''km/h''),
                    (''timezone'', JStr ''Europe/Berlin'')]\<rparr>,
      [weather_call ''52.5'' ''13.4''])"
  using weather_success_reshapes [of "[''lat'' \<mapsto> ''52.5'', ''lon'' \<mapsto> ''13.4'']" "''52.5''" "''13.4''"
      "\<lambda>c. Inr (HttpResponse (Inr berlin))" berlin
      "JObj [(''temperature_2m'', JFloat 21.5), (''weathercode'', JInt 3), (''windspeed_10m'', JFloat 12.0)]"
      "JObj [(''temperature_2m'', JStr [CHR 0xB0, CHR ''C'']), (''windspeed_10m'', JStr ''km/h'')]"
      "JFloat 21.5" "JStr [CHR 0xB0, CHR ''C'']" "JInt 3" "JFloat 12.0" "JStr ''km/h''" "JStr ''Europe/Berlin''"]
  by (simp add: berlin_def)

subsection \<open>/search: the first five results\<close>

lemma format_result_object: "is_object r \<Longrightarrow> format_result r = Inr (search_entry r)"
  by (cases r) (simp_all add: format_result_def search_entry_def)

lemma format_results_objects:
  "\<forall>r \<in> set rs. is_object r \<Longrightarrow> format_results rs acc = Inr (acc @ map search_entry rs)"
  by (induction rs arbitrary: acc) (simp_all add: format_result_object)

lemma search_results_list:
  assumes "field data ''results'' = Some (JList rs)" and "\<forall>r \<in> set (take 5 rs). is_object r"
  shows "search_results data = Inr (JObj [(''results'', JList (map search_entry (take 5 rs)))])"
proof -
  obtain kvs where data: "data = JObj kvs"
    using assms(1) by (cases data) simp_all
  show ?thesis
    using assms by (simp add: data search_results_def format_results_objects)
qed

text \<open>
  C3, as the code has it. A /search request carries a non-empty \<open>q\<close>, the upstream
  JSON has a list under \<open>results\<close>, and each of its first five entries is an object.
  Then the response has status 200 and its results are the first \<open>min 5 (length rs)\<close>
  upstream entries in their order, each reshaped to \<open>title\<close>, \<open>url\<close> and
  \<open>snippet\<close>, where the snippet is the upstream \<open>content\<close> field and the empty
  string when that field is absent. A \<open>content\<close> that is present is passed on as it
  is, null included.
\<close>

theorem search_reshapes_first_five:
  assumes "args ''q'' = Some query" and "query \<noteq> []"
    and "requests_get (search_call query) = Inr (HttpResponse (Inr data))"
    and "field data ''results'' = Some (JList rs)"
    and "\<forall>r \<in> set (take 5 rs). is_object r"
  shows "web_search requests_get args =
           (\<lparr>status = 200, body = JObj [(''results'', JList (map search_entry (take 5 rs)))]\<rparr>,
            [search_call query])
         \<and> length (map search_entry (take 5 rs)) = min 5 (length rs)"
  using assms(1,2,3) search_results_list [OF assms(4,5)]
  by (simp add: web_search_def search_try_def jsonify_def min.commute)

theorem search_reshapes_first_five_witness:
  "web_search (\<lambda>c. Inr (HttpResponse (Inr eight_results))) [''q'' \<mapsto> ''test''] =
     (\<lparr>status = 200, body = JObj [(''results'', JList
        [JObj [(''title'', JStr ''a''), (''url'', JStr ''http://a''), (''snippet'', JStr ''first'')],
         JObj [(''title'', JStr ''b''), (''url'', JStr ''http://b''), (''snippet'', JStr [])],
         JObj [(''title'', JStr ''c''), (''url'', JStr ''http://c''), (''snippet'', JNull)],
         JObj [(''title'', JNull), (''url'', JStr ''http://d''), (''snippet'', JStr [])],
         JObj [(''title'', JNull), (''url'', JNull), (''snippet'', JStr [])]])]\<rparr>,
      [search_call ''test''])"
  using search_reshapes_first_five [of "[''q'' \<mapsto> ''test'']" "''test''"
      "\<lambda>c. Inr (HttpResponse (Inr eight_results))" eight_results
      "[JObj [(''title'', JStr ''a''), (''url'', JStr ''http://a''), (''content'', JStr ''first'')],
        JObj [(''title'', JStr ''b''), (''url'', JStr ''http://b'')],
        JObj [(''title'', JStr ''c''), (''url'', JStr ''http://c''), (''content'', JNull)],
        JObj [(''url'', JStr ''http://d'')],
        JObj [],
        JObj [(''title'', JStr ''f'')],
        JInt 7,
        JObj [(''title'', JStr ''h'')]]"]
  by (simp add: eight_results_def search_entry_def)

text \<open>
  C3 as stated fails where \<open>content\<close> is present and null: \<open>r.get('content', '')\<close>
  returns the null, and the response carries a null snippet, not the empty string.
\<close>

theorem search_null_content_counterexample:
  "fst (web_search (\<lambda>c. Inr (HttpResponse (Inr null_content))) [''q'' \<mapsto> ''test'']) =
     \<lparr>status = 200, body = JObj [(''results'', JList
        [JObj [(''title'', JStr ''a''), (''url'', JStr ''http://a''), (''snippet'', JNull)]])]\<rparr>
   \<and> fst (web_search (\<lambda>c. Inr (HttpResponse (Inr null_content))) [''q'' \<mapsto> ''test'']) \<noteq>
     \<lparr>status = 200, body = JObj [(''results'', JList (map claimed_search_entry (take 5
        [JObj [(''title'', JStr ''a''), (''url'', JStr ''http://a''), (''content'', JNull)]])))]\<rparr>"
  by (simp add: web_search_def search_try_def search_results_def format_result_def jsonify_def
      null_content_def search_call_def claimed_search_entry_def)

subsection \<open>Upstream failures\<close>




subsection \<open>/time\<close>

lemma digits_nonempty: "digits m \<noteq> []"
  by (subst digits.simps) simp

lemma length_digits_step: "10 \<le> m \<Longrightarrow> length (digits m) = Suc (length (digits (m div 10)))"
  by (subst digits.simps) simp

lemma length_digits_ge4: "1000 \<le> n \<Longrightarrow> 4 \<le> length (digits n)"
proof -
  assume n: "1000 \<le> n"
  have "length (digits n) = Suc (Suc (Suc (length (digits (n div 10 div 10 div 10)))))"
    using n by (simp add: length_digits_step)
  moreover have "length (digits (n div 10 div 10 div 10)) \<noteq> 0"
    using digits_nonempty by simp
  ultimately show ?thesis
    by linarith
qed

lemma zfill_year: "1000 \<le> n \<Longrightarrow> zfill 4 (digits n) = digits n"
  using length_digits_ge4 [of n] by (simp add: zfill_def)

text \<open>An instant read back from its ISO form is the instant.\<close>

lemma digit_value_char: "d < 10 \<Longrightarrow> digit_value (digit_char d) = d"
proof -
  assume "d < 10"
  then consider "d = 0" | "d = 1" | "d = 2" | "d = 3" | "d = 4" | "d = 5" | "d = 6" | "d = 7"
    | "d = 8" | "d = 9"
    by atomize_elim arith
  then show ?thesis
    by cases (simp_all add: digit_value_def digit_char_def)
qed

lemma parse_nat_snoc: "parse_nat (s @ [c]) = 10 * parse_nat s + digit_value c"
  by (simp add: parse_nat_def)

lemma parse_nat_digits: "parse_nat (digits n) = n"
proof (induction n rule: digits.induct)
  case (1 n)
  show ?case
  proof (cases "n < 10")
    case True
    then show ?thesis
      by (subst digits.simps) (simp add: parse_nat_def digit_value_char)
  next
    case False
    with 1 have "parse_nat (digits (n div 10)) = n div 10" by simp
    with False show ?thesis
      by (subst digits.simps) (simp add: parse_nat_snoc digit_value_char)
  qed
qed

lemma digit_value_zero: "digit_value CHR ''0'' = 0"
  by (simp add: digit_value_def)

lemma parse_nat_zeros: "parse_nat (replicate k CHR ''0'' @ s) = parse_nat s"
proof -
  have "foldl (\<lambda>a c. 10 * a + digit_value c) 0 (replicate k CHR ''0'') = 0"
    by (induction k) (simp_all add: digit_value_zero)
  then show ?thesis
    by (simp add: parse_nat_def)
qed

lemma parse_nat_zfill: "parse_nat (zfill w (digits n)) = n"
  by (simp add: zfill_def parse_nat_zeros parse_nat_digits)

lemma length_digits_le: "n < 10 ^ Suc w \<Longrightarrow> length (digits n) \<le> Suc w"
proof (induction w arbitrary: n)
  case 0
  then show ?case by (subst digits.simps) simp
next
  case (Suc w)
  show ?case
  proof (cases "n < 10")
    case True
    then show ?thesis by (subst digits.simps) simp
  next
    case False
    from Suc.prems have "n div 10 < 10 ^ Suc w" by simp
    then have "length (digits (n div 10)) \<le> Suc w" by (rule Suc.IH)
    with False show ?thesis by (subst digits.simps) simp
  qed
qed

lemma length_zfill: "0 < w \<Longrightarrow> n < 10 ^ w \<Longrightarrow> length (zfill w (digits n)) = w"
proof -
  assume "0 < w" and n: "n < 10 ^ w"
  then obtain v where w: "w = Suc v" by (cases w) auto
  with n have "length (digits n) \<le> w" using length_digits_le [of n v] by simp
  then show ?thesis by (simp add: zfill_def)
qed

lemma read_iso_isoformat:
  assumes "valid_datetime d"
  shows "read_iso (isoformat d) = d"
proof -
  have y: "length (zfill 4 (digits (year d))) = 4"
    using assms length_zfill [of 4 "year d"] by (simp add: valid_datetime_def)
  have mo: "length (zfill 2 (digits (month d))) = 2"
    using assms length_zfill [of 2 "month d"] by (simp add: valid_datetime_def)
  have da: "length (zfill 2 (digits (day d))) = 2"
    using assms length_zfill [of 2 "day d"] by (simp add: valid_datetime_def)
  have ho: "length (zfill 2 (digits (hour d))) = 2"
    using assms length_zfill [of 2 "hour d"] by (simp add: valid_datetime_def)
  have mi: "length (zfill 2 (digits (minute d))) = 2"
    using assms length_zfill [of 2 "minute d"] by (simp add: valid_datetime_def)
  have se: "length (zfill 2 (digits (second d))) = 2"
    using assms length_zfill [of 2 "second d"] by (simp add: valid_datetime_def)
  have fr: "parse_nat (drop 1 (iso_fraction (microsecond d))) = microsecond d"
  proof (cases "microsecond d = 0")
    case True
    then show ?thesis by (simp add: iso_fraction_def parse_nat_def)
  next
    case False
    then show ?thesis by (simp add: iso_fraction_def parse_nat_zfill)
  qed
  have "read_iso (isoformat d) =
      \<lparr>year = year d, month = month d, day = day d, hour = hour d, minute = minute d,
       second = second d, microsecond = microsecond d\<rparr>"
    using fr by (simp add: read_iso_def isoformat_def y mo da ho mi se parse_nat_zfill)
  then show ?thesis
    by simp
qed

text \<open>
  C7, as the code has it. \<open>get_time\<close> reads the clock once, and the four fields
  are computed from that one reading. The \<open>datetime\<close> field is the \<open>date\<close>
  field, a \<open>T\<close>, the \<open>time\<close> field and the microseconds of the reading (when
  they are not zero). Read back, the \<open>datetime\<close> field is the reading, and the
  date and the time put together are the reading cut down to the whole second. (For a
  year from 1000 on, where \<open>%Y\<close> and \<open>isoformat\<close> print the same four
  digits.)
\<close>

theorem time_fields_from_one_reading:
  assumes "valid_datetime (clock n)" and "1000 \<le> year (clock n)"
  shows "get_time clock tzname n =
           (\<lparr>status = 200,
             body = JObj [(''datetime'', JStr (isoformat (clock n))),
                          (''date'', JStr (strftime_date (clock n))),
                          (''time'', JStr (strftime_time (clock n))),
                          (''timezone'', JStr (tzname (clock n)))]\<rparr>,
            Suc n)
         \<and> isoformat (clock n) =
             strftime_date (clock n) @ ''T'' @ strftime_time (clock n)
               @ iso_fraction (microsecond (clock n))
         \<and> read_iso (isoformat (clock n)) = clock n
         \<and> read_iso (strftime_date (clock n) @ ''T'' @ strftime_time (clock n)) =
             (clock n)\<lparr>microsecond := 0\<rparr>"
proof -
  have whole: "strftime_date (clock n) @ ''T'' @ strftime_time (clock n) =
      isoformat ((clock n)\<lparr>microsecond := 0\<rparr>)"
    using zfill_year [OF assms(2)]
    by (simp add: isoformat_def strftime_date_def strftime_time_def iso_fraction_def)
  have "valid_datetime ((clock n)\<lparr>microsecond := 0\<rparr>)"
    using assms(1) by (simp add: valid_datetime_def)
  then have "read_iso (strftime_date (clock n) @ ''T'' @ strftime_time (clock n)) =
      (clock n)\<lparr>microsecond := 0\<rparr>"
    unfolding whole by (rule read_iso_isoformat)
  moreover have "isoformat (clock n) =
      strftime_date (clock n) @ ''T'' @ strftime_time (clock n)
        @ iso_fraction (microsecond (clock n))"
    using zfill_year [OF assms(2)]
    by (simp add: isoformat_def strftime_date_def strftime_time_def)
  moreover have "get_time clock tzname n =
           (\<lparr>status = 200,
             body = JObj [(''datetime'', JStr (isoformat (clock n))),
                          (''date'', JStr (strftime_date (clock n))),
                          (''time'', JStr (strftime_time (clock n))),
                          (''timezone'', JStr (tzname (clock n)))]\<rparr>,
            Suc n)"
    by (simp add: get_time_def datetime_now_def jsonify_def)
  ultimately show ?thesis
    using read_iso_isoformat [OF assms(1)] by simp
qed

theorem time_fields_from_one_reading_witness:
  "get_time (\<lambda>n. half_past) (\<lambda>d. ''CEST'') 0 =
     (\<lparr>status = 200,
       body = JObj [(''datetime'', JStr ''2024-05-06T07:08:09.500000''),
                    (''date'', JStr ''2024-05-06''),
                    (''time'', JStr ''07:08:09''),
                    (''timezone'', JStr ''CEST'')]\<rparr>,
      1)
   \<and> read_iso ''2024-05-06T07:08:09.500000'' = half_past
   \<and> read_iso (''2024-05-06'' @ ''T'' @ ''07:08:09'') = half_past\<lparr>microsecond := 0\<rparr>"
  using time_fields_from_one_reading [of "\<lambda>n. half_past" 0 "\<lambda>d. ''CEST''"]
  by (simp add: half_past_def valid_datetime_def isoformat_def strftime_date_def
      strftime_time_def iso_fraction_def zfill_def digits.simps digit_char_def)

text \<open>
  C7 as stated fails for every reading with microseconds: the date and the time put
  together give the start of the second, not the instant of the \<open>datetime\<close> field.
\<close>

theorem time_microseconds_counterexample:
  "field (body (fst (get_time (\<lambda>n. half_past) (\<lambda>d. ''CEST'') 0))) ''datetime'' =
     Some (JStr ''2024-05-06T07:08:09.500000'')
   \<and> field (body (fst (get_time (\<lambda>n. half_past) (\<lambda>d. ''CEST'') 0))) ''date'' =
     Some (JStr ''2024-05-06'')
   \<and> field (body (fst (get_time (\<lambda>n. half_past) (\<lambda>d. ''CEST'') 0))) ''time'' =
     Some (JStr ''07:08:09'')
   \<and> read_iso ''2024-05-06T07:08:09.500000'' = half_past
   \<and> read_iso (''2024-05-06'' @ ''T'' @ ''07:08:09'') = half_past\<lparr>microsecond := 0\<rparr>
   \<and> read_iso (''2024-05-06'' @ ''T'' @ ''07:08:09'') \<noteq> read_iso ''2024-05-06T07:08:09.500000''"
  by (simp add: get_time_def datetime_now_def jsonify_def half_past_def isoformat_def
      strftime_date_def strftime_time_def iso_fraction_def zfill_def digits.simps digit_char_def
      read_iso_def parse_nat_def digit_value_def)

subsection \<open>/system: the entries of the response\<close>





lemma probe_None:
  "gnome_probe out = None \<longleftrightarrow> out = Hangs"
  "flatpak_probe out = None \<longleftrightarrow> out = Hangs"
  "apt_probe out = None \<longleftrightarrow> out = Hangs"
  by (cases out; simp add: gnome_probe_def flatpak_probe_def apt_probe_def Let_def)+


subsection \<open>/system: failed probes\<close>

text \<open>
  C5. The host's readings and the process list are read without an exception, and the
  three probes (the desktop shell's version, the flatpak list, the dpkg list) all
  raise. Then the response has status 200; it carries the numeric fields
  \<open>cpu_percent\<close>, \<open>cpu_count\<close>, \<open>memory_total_gb\<close>,
  \<open>memory_used_gb\<close>, \<open>memory_percent\<close>, \<open>disk_total_gb\<close>,
  \<open>disk_used_gb\<close> and \<open>disk_percent\<close>; \<open>gnome_version\<close> is the
  string \<open>unknown\<close>, both package counts are 0 and the list of applications is
  empty.
\<close>

theorem failed_probes_give_fallbacks:
  assumes "host_readings env = Inr h" and "process_iter env = Inr procs"
    and "check_output env gnome_call = Raises e1"
    and "check_output env flatpak_call = Raises e2"
    and "check_output env dpkg_call = Raises e3"
  shows "\<exists>r. system_info env = Some r \<and> status r = 200
       \<and> body r = JObj (base_info h @
            [(''gnome_version'', JStr ''unknown''),
             (''flatpak_count'', JInt 0),
             (''flatpak_apps'', JList []),
             (''apt_packages_count'', JInt 0),
             (''top_processes'', JList (top_processes procs))])
       \<and> field (body r) ''cpu_percent'' = Some (JFloat (cpu_percent h))
       \<and> field (body r) ''cpu_count'' = Some (json_of_count (cpu_count h))
       \<and> field (body r) ''memory_total_gb'' = Some (JFloat (gigabytes (memory_total h)))
       \<and> field (body r) ''memory_used_gb'' = Some (JFloat (gigabytes (memory_used h)))
       \<and> field (body r) ''memory_percent'' = Some (JFloat (memory_percent h))
       \<and> field (body r) ''disk_total_gb'' = Some (JFloat (gigabytes (disk_total h)))
       \<and> field (body r) ''disk_used_gb'' = Some (JFloat (gigabytes (disk_used h)))
       \<and> field (body r) ''disk_percent'' = Some (JFloat (disk_percent h))
       \<and> field (body r) ''gnome_version'' = Some (JStr ''unknown'')
       \<and> field (body r) ''flatpak_count'' = Some (JInt 0)
       \<and> field (body r) ''flatpak_apps'' = Some (JList [])
       \<and> field (body r) ''apt_packages_count'' = Some (JInt 0)"
proof -
  have "system_info env = Some \<lparr>status = 200, body = JObj (base_info h @
            [(''gnome_version'', JStr ''unknown''),
             (''flatpak_count'', JInt 0),
             (''flatpak_apps'', JList []),
             (''apt_packages_count'', JInt 0),
             (''top_processes'', JList (top_processes procs))])\<rparr>"
    using assms
    by (simp add: system_info_def gnome_probe_def flatpak_probe_def apt_probe_def store_def
        base_info_def jsonify_def)
  then show ?thesis
    by (simp add: base_info_def)
qed

theorem failed_probes_give_fallbacks_witness:
  "\<exists>r. system_info all_probes_fail = Some r \<and> status r = 200
     \<and> field (body r) ''cpu_percent'' = Some (JFloat 12.5)
     \<and> field (body r) ''cpu_count'' = Some (JInt 8)
     \<and> field (body r) ''memory_total_gb'' = Some (JFloat 16)
     \<and> field (body r) ''memory_used_gb'' = Some (JFloat 0.12)
     \<and> field (body r) ''memory_percent'' = Some (JFloat 0.8)
     \<and> field (body r) ''disk_total_gb'' = Some (JFloat 476.84)
     \<and> field (body r) ''disk_used_gb'' = Some (JFloat 238.42)
     \<and> field (body r) ''disk_percent'' = Some (JFloat 50)
     \<and> field (body r) ''gnome_version'' = Some (JStr ''unknown'')
     \<and> field (body r) ''flatpak_count'' = Some (JInt 0)
     \<and> field (body r) ''flatpak_apps'' = Some (JList [])
     \<and> field (body r) ''apt_packages_count'' = Some (JInt 0)"
  using failed_probes_give_fallbacks [of all_probes_fail laptop some_processes
      "LibraryError ''[Errno 2] No such file or directory''"
      "LibraryError ''[Errno 2] No such file or directory''"
      "LibraryError ''[Errno 2] No such file or directory''"]
  by (simp add: all_probes_fail_def laptop_def gigabytes_def round_half_even_def) blast

subsection \<open>/system: the top processes\<close>








subsection \<open>/system: the flatpak inventory\<close>







lemma split_join_nl:
  "ls \<noteq> [] \<Longrightarrow> \<forall>l \<in> set ls. CHR 0x0A \<notin> set l \<Longrightarrow> split_nl (join_nl ls) = ls"
proof (induction ls rule: join_nl.induct)
  case 1
  then show ?case by simp
next
  case (2 l)
  then show ?case by (induction l) auto
next
  case (3 l v va)
  then have rest: "split_nl (join_nl (v # va)) = v # va" by simp
  from "3.prems" have "CHR 0x0A \<notin> set l" by simp
  then have "split_nl (l @ CHR 0x0A # join_nl (v # va)) = l # split_nl (join_nl (v # va))"
    by (induction l) (auto split: list.splits)
  with rest show ?case by simp
qed























subsection \<open>/system: sub-processes that do not end\<close>

text \<open>
  C9, as the code has it. None of the three \<open>check_output\<close> calls passes a
  timeout. The handler answers exactly when no probe it reaches waits for a child that
  never exits: with readings that were read, there is no response if and only if one
  of the three calls hangs.
\<close>

theorem probes_wait_without_timeout:
  "wait_timeout gnome_call = None \<and> wait_timeout flatpak_call = None
   \<and> wait_timeout dpkg_call = None
   \<and> (system_info env = None \<longleftrightarrow>
        (\<exists>h. host_readings env = Inr h)
        \<and> (check_output env gnome_call = Hangs \<or> check_output env flatpak_call = Hangs
            \<or> check_output env dpkg_call = Hangs))"
proof -
  have "system_info env = None \<longleftrightarrow>
        (\<exists>h. host_readings env = Inr h)
        \<and> (check_output env gnome_call = Hangs \<or> check_output env flatpak_call = Hangs
            \<or> check_output env dpkg_call = Hangs)"
  proof (cases "host_readings env")
    case (Inl e)
    then show ?thesis by (simp add: system_info_def)
  next
    case (Inr h)
    then show ?thesis
      by (auto simp: system_info_def Option.bind_eq_None_conv probe_None split: sum.splits)
  qed
  then show ?thesis
    by (simp add: gnome_call_def flatpak_call_def dpkg_call_def)
qed

theorem probes_wait_without_timeout_witness:
  "system_info all_probes_fail \<noteq> None \<and> system_info desktop \<noteq> None"
  using probes_wait_without_timeout [of all_probes_fail] probes_wait_without_timeout [of desktop]
  by (simp add: all_probes_fail_def desktop_def gnome_call_def flatpak_call_def dpkg_call_def)

text \<open>
  C9 as stated fails on a host whose \<open>gnome-shell --version\<close> never exits: the
  call has no timeout, the probe is not given up as failed, and the handler never
  responds.
\<close>

theorem hanging_probe_counterexample:
  "wait_timeout gnome_call = None
   \<and> check_output gnome_hangs gnome_call = Hangs
   \<and> system_info gnome_hangs = None"
  by (simp add: gnome_hangs_def system_info_def gnome_probe_def gnome_call_def)

end
